theory Spec2Isabelle
  imports Complex_Main "HOL-Library.AList"
begin

text \<open>
  A shallow embedding of the earthquake monitoring server: the algorithm library that
  turns an acceleration sample into magnitude, intensity and alert data, the WebSocket
  server that registers devices, ingests their samples, keeps the bounded buffers and
  the cache file, and checks heartbeats, and the alert list of the command-line
  dashboard. A handler of the server is a function from the state before to the state
  after; what it sends, terminates or writes is appended to the trace of the state.
\<close>

section \<open>JavaScript numbers\<close>

text \<open>
  A JavaScript number is modelled as an exact real extended with the three special
  values of IEEE arithmetic. Finite values are exact reals: the rounding error and the
  overflow of double arithmetic are not modelled, and there is no negative zero.
\<close>

datatype jsnum = NaN | NegInf | Fin real | PosInf

fun isNaN :: "jsnum \<Rightarrow> bool" where
  "isNaN NaN = True"
| "isNaN _ = False"

fun js_neg :: "jsnum \<Rightarrow> jsnum" where
  "js_neg NaN = NaN"
| "js_neg NegInf = PosInf"
| "js_neg PosInf = NegInf"
| "js_neg (Fin a) = Fin (- a)"

fun js_add :: "jsnum \<Rightarrow> jsnum \<Rightarrow> jsnum" where
  "js_add (Fin a) (Fin b) = Fin (a + b)"
| "js_add NaN _ = NaN"
| "js_add _ NaN = NaN"
| "js_add PosInf NegInf = NaN"
| "js_add NegInf PosInf = NaN"
| "js_add PosInf _ = PosInf"
| "js_add _ PosInf = PosInf"
| "js_add NegInf _ = NegInf"
| "js_add _ NegInf = NegInf"

definition js_sub :: "jsnum \<Rightarrow> jsnum \<Rightarrow> jsnum" where
  "js_sub a b = js_add a (js_neg b)"

fun js_mul :: "jsnum \<Rightarrow> jsnum \<Rightarrow> jsnum" where
  "js_mul (Fin a) (Fin b) = Fin (a * b)"
| "js_mul NaN _ = NaN"
| "js_mul _ NaN = NaN"
| "js_mul (Fin a) PosInf = (if a = 0 then NaN else if 0 < a then PosInf else NegInf)"
| "js_mul (Fin a) NegInf = (if a = 0 then NaN else if 0 < a then NegInf else PosInf)"
| "js_mul PosInf (Fin b) = (if b = 0 then NaN else if 0 < b then PosInf else NegInf)"
| "js_mul NegInf (Fin b) = (if b = 0 then NaN else if 0 < b then NegInf else PosInf)"
| "js_mul PosInf PosInf = PosInf"
| "js_mul NegInf NegInf = PosInf"
| "js_mul PosInf NegInf = NegInf"
| "js_mul NegInf PosInf = NegInf"

text \<open>Division is only ever used with a finite non-zero constant as the divisor.\<close>

definition js_div :: "jsnum \<Rightarrow> real \<Rightarrow> jsnum" where
  "js_div a d = js_mul a (Fin (1 / d))"

text \<open>The comparisons \<open><\<close>, \<open><=\<close>, \<open>>\<close>, \<open>>=\<close>: false as soon as one side is NaN.\<close>

fun js_less :: "jsnum \<Rightarrow> jsnum \<Rightarrow> bool" where
  "js_less (Fin a) (Fin b) = (a < b)"
| "js_less NaN _ = False"
| "js_less _ NaN = False"
| "js_less _ NegInf = False"
| "js_less PosInf _ = False"
| "js_less NegInf _ = True"
| "js_less _ PosInf = True"

definition js_le :: "jsnum \<Rightarrow> jsnum \<Rightarrow> bool" where
  "js_le a b = (\<not> isNaN a \<and> \<not> isNaN b \<and> \<not> js_less b a)"

definition js_gt :: "jsnum \<Rightarrow> jsnum \<Rightarrow> bool" where
  "js_gt a b = js_less b a"

definition js_ge :: "jsnum \<Rightarrow> jsnum \<Rightarrow> bool" where
  "js_ge a b = js_le b a"

definition Math_max :: "jsnum \<Rightarrow> jsnum \<Rightarrow> jsnum" where
  "Math_max a b = (if isNaN a \<or> isNaN b then NaN else if js_less a b then b else a)"

definition Math_min :: "jsnum \<Rightarrow> jsnum \<Rightarrow> jsnum" where
  "Math_min a b = (if isNaN a \<or> isNaN b then NaN else if js_less b a then b else a)"

text \<open>\<open>Math.pow(x, 2)\<close>.\<close>

fun Math_pow2 :: "jsnum \<Rightarrow> jsnum" where
  "Math_pow2 NaN = NaN"
| "Math_pow2 NegInf = PosInf"
| "Math_pow2 PosInf = PosInf"
| "Math_pow2 (Fin a) = Fin (a\<^sup>2)"

text \<open>\<open>Math.pow(10, y)\<close>.\<close>

fun Math_pow10 :: "jsnum \<Rightarrow> jsnum" where
  "Math_pow10 NaN = NaN"
| "Math_pow10 NegInf = Fin 0"
| "Math_pow10 PosInf = PosInf"
| "Math_pow10 (Fin y) = Fin (10 powr y)"

fun Math_sqrt :: "jsnum \<Rightarrow> jsnum" where
  "Math_sqrt NaN = NaN"
| "Math_sqrt NegInf = NaN"
| "Math_sqrt PosInf = PosInf"
| "Math_sqrt (Fin a) = (if a < 0 then NaN else Fin (sqrt a))"

fun Math_log10 :: "jsnum \<Rightarrow> jsnum" where
  "Math_log10 NaN = NaN"
| "Math_log10 NegInf = NaN"
| "Math_log10 PosInf = PosInf"
| "Math_log10 (Fin a) = (if a < 0 then NaN else if a = 0 then NegInf else Fin (log 10 a))"

text \<open>
  \<open>parseFloat(x.toFixed(f))\<close>: \<open>toFixed\<close> prints the nearest decimal with \<open>f\<close>
  fraction digits, the larger one at a tie, after taking the sign off; from \<open>10^21\<close> on,
  and for the special values, it prints the number itself. Reading the string back gives
  the printed decimal.
\<close>

definition toFixed_parsed :: "nat \<Rightarrow> jsnum \<Rightarrow> jsnum" where
  "toFixed_parsed f x =
     (case x of
        Fin r \<Rightarrow>
          if 10 ^ 21 \<le> \<bar>r\<bar> then Fin r
          else Fin (sgn r * (of_int \<lfloor>\<bar>r\<bar> * 10 ^ f + 1 / 2\<rfloor> / 10 ^ f))
      | _ \<Rightarrow> x)"

section \<open>The earthquake algorithm library\<close>

definition calculateMagnitude :: "jsnum \<Rightarrow> jsnum \<Rightarrow> jsnum \<Rightarrow> jsnum" where
  "calculateMagnitude ax ay az =
     (let acceleration =
            Math_sqrt (js_add (js_add (Math_pow2 ax) (Math_pow2 ay)) (Math_pow2 az));
          magnitude = js_mul (Math_log10 (js_add acceleration (Fin 1))) (Fin 2)
      in Math_max (Fin 0) (Math_min magnitude (Fin 10)))"

definition calculateIntensity :: "jsnum \<Rightarrow> jsnum \<Rightarrow> jsnum \<Rightarrow> jsnum \<Rightarrow> jsnum" where
  "calculateIntensity ax ay az distance0 =
     (let acceleration =
            Math_sqrt (js_add (js_add (Math_pow2 ax) (Math_pow2 ay)) (Math_pow2 az));
          magnitude = js_mul (Math_log10 (js_add acceleration (Fin 1))) (Fin 2);
          distance = (if js_le distance0 (Fin 0) then Fin 1 else distance0);
          intensity =
            js_sub (js_sub magnitude (js_mul (Math_log10 distance) (Fin 0.2))) (Fin 0.5)
      in Math_max (Fin 1) (Math_min (Fin 12) intensity))"

record jma_result =
  jma_intensity_of :: jsnum
  jma_pga :: jsnum
  jma_pga_raw :: jsnum

definition jma_ladder :: "jsnum \<Rightarrow> real" where
  "jma_ladder correctedPGA =
     (if js_less correctedPGA (Fin 0.0017) then 0
      else if js_less correctedPGA (Fin 0.014) then 1
      else if js_less correctedPGA (Fin 0.039) then 1.5
      else if js_less correctedPGA (Fin 0.098) then 2
      else if js_less correctedPGA (Fin 0.197) then 2.5
      else if js_less correctedPGA (Fin 0.394) then 3
      else if js_less correctedPGA (Fin 0.787) then 3.5
      else if js_less correctedPGA (Fin 1.637) then 4
      else if js_less correctedPGA (Fin 3.386) then 4.5
      else if js_less correctedPGA (Fin 6.889) then 5
      else if js_less correctedPGA (Fin 14.050) then 5.5
      else if js_less correctedPGA (Fin 28.650) then 6
      else 6.5)"

definition calculateJmaSeismicIntensity ::
  "jsnum \<Rightarrow> jsnum \<Rightarrow> jsnum \<Rightarrow> jsnum \<Rightarrow> jma_result" where
  "calculateJmaSeismicIntensity ax ay az correctionFactor =
     (let PGA =
            js_mul (Math_sqrt (js_add (js_add (Math_pow2 ax) (Math_pow2 ay)) (Math_pow2 az)))
              (Fin 9.8);
          correctedPGA = js_mul PGA correctionFactor
      in \<lparr>jma_intensity_of = Fin (jma_ladder correctedPGA),
          jma_pga = correctedPGA,
          jma_pga_raw = PGA\<rparr>)"

text \<open>
  The labels of the source are Chinese words; the constructors name them in English, in
  the order of the source: micro, weak, light, moderate, strong, major, great.
\<close>

datatype quake_type = Micro | Weak | Light | Moderate | Strong | Major | Great

definition classifyEarthquake :: "jsnum \<Rightarrow> quake_type" where
  "classifyEarthquake magnitude =
     (if js_less magnitude (Fin 2.0) then Micro
      else if js_less magnitude (Fin 3.0) then Weak
      else if js_less magnitude (Fin 5.0) then Light
      else if js_less magnitude (Fin 6.0) then Moderate
      else if js_less magnitude (Fin 7.0) then Strong
      else if js_less magnitude (Fin 8.0) then Major
      else Great)"

text \<open>The alert level of \<open>assessAlertLevel\<close>; its message and colour are fixed by the level.\<close>

datatype alert_grade = Severe | High | Medium | Low | NoAlert

definition assessAlertLevel :: "jsnum \<Rightarrow> jsnum \<Rightarrow> alert_grade" where
  "assessAlertLevel magnitude intensity =
     (if js_ge magnitude (Fin 7.0) \<or> js_ge intensity (Fin 9) then Severe
      else if js_ge magnitude (Fin 5.0) \<or> js_ge intensity (Fin 7) then High
      else if js_ge magnitude (Fin 4.0) \<or> js_ge intensity (Fin 5) then Medium
      else if js_ge magnitude (Fin 3.0) \<or> js_ge intensity (Fin 3) then Low
      else NoAlert)"

definition detectEarthquake :: "jsnum \<Rightarrow> jsnum \<Rightarrow> bool" where
  "detectEarthquake magnitude threshold = js_ge magnitude threshold"

definition calculateEnergy :: "jsnum \<Rightarrow> jsnum" where
  "calculateEnergy magnitude = Math_pow10 (js_add (Fin 4.8) (js_mul (Fin 1.5) magnitude))"

record radius_bands =
  extreme :: jsnum
  strong :: jsnum
  moderate :: jsnum
  felt :: jsnum

definition calculateImpactRadius :: "jsnum \<Rightarrow> radius_bands" where
  "calculateImpactRadius magnitude =
     \<lparr>extreme = (if js_gt magnitude (Fin 6.0)
                 then Math_pow10 (js_sub (js_div magnitude 2) (Fin 1)) else Fin 0),
      strong = (if js_gt magnitude (Fin 5.0)
                then Math_pow10 (js_div magnitude 2) else Math_pow10 (js_div magnitude 2.5)),
      moderate = Math_pow10 (js_add (js_div magnitude 2) (Fin 1)),
      felt = Math_pow10 (js_add (js_div magnitude 1.5) (Fin 2))\<rparr>"

section \<open>Values of a parsed message\<close>

text \<open>
  What \<open>JSON.parse\<close> returns, and \<open>undefined\<close> for a property that is absent. An
  array or an object carries the identity of the JavaScript object (a number), so that
  equality of two values is the equality a \<open>Map\<close> uses for its keys: two objects are
  the same key only when they are the same object.
\<close>

datatype jsval =
    JUndefined
  | JNull
  | JBool bool
  | JNum jsnum
  | JStr string
  | JArr nat "jsval list"
  | JObj nat "(string \<times> jsval) list"

type_synonym fields = "(string \<times> jsval) list"

text \<open>\<open>!v\<close> is true for the falsy values.\<close>

definition falsy :: "jsval \<Rightarrow> bool" where
  "falsy v = (v = JUndefined \<or> v = JNull \<or> v = JBool False \<or> v = JNum (Fin 0)
              \<or> v = JNum NaN \<or> v = JStr [])"

text \<open>\<open>data.k\<close> on the fields of an object: \<open>undefined\<close> when the property is absent.\<close>

definition get_field :: "fields \<Rightarrow> string \<Rightarrow> jsval" where
  "get_field data k = (case map_of data k of None \<Rightarrow> JUndefined | Some v \<Rightarrow> v)"

subsection \<open>parseFloat\<close>

definition isWhite :: "char \<Rightarrow> bool" where
  "isWhite c = (c \<in> set [CHR 0x09, CHR 0x0A, CHR 0x0B, CHR 0x0C, CHR 0x0D, CHR 0x20])"

definition digitOf :: "char \<Rightarrow> nat option" where
  "digitOf c = (let n = (of_char c :: nat) in if 48 \<le> n \<and> n \<le> 57 then Some (n - 48) else None)"

fun takeDigits :: "string \<Rightarrow> nat list \<times> string" where
  "takeDigits [] = ([], [])"
| "takeDigits (c # cs) =
     (case digitOf c of
        None \<Rightarrow> ([], c # cs)
      | Some d \<Rightarrow> (case takeDigits cs of (ds, r) \<Rightarrow> (d # ds, r)))"

definition digitsVal :: "nat list \<Rightarrow> nat" where
  "digitsVal ds = foldl (\<lambda>a d. 10 * a + d) 0 ds"

definition pow10 :: "int \<Rightarrow> real" where
  "pow10 e = (if 0 \<le> e then 10 ^ nat e else 1 / 10 ^ nat (- e))"

text \<open>The exponent part at the head of a string: its value, 0 when there is none.\<close>

definition exponentPart :: "string \<Rightarrow> int" where
  "exponentPart r =
     (case r of
        [] \<Rightarrow> 0
      | c # r1 \<Rightarrow>
          if c = CHR ''e'' \<or> c = CHR ''E'' then
            (let neg = (case r1 of [] \<Rightarrow> False | g # _ \<Rightarrow> g = CHR ''-'');
                 r2 = (case r1 of [] \<Rightarrow> []
                       | g # r' \<Rightarrow> if g = CHR ''-'' \<or> g = CHR ''+'' then r' else r1);
                 ds = fst (takeDigits r2)
             in if ds = [] then 0
                else if neg then - int (digitsVal ds) else int (digitsVal ds))
          else 0)"

text \<open>The longest prefix that is an unsigned decimal literal, or \<open>Infinity\<close>.\<close>

definition parseUnsigned :: "string \<Rightarrow> jsnum" where
  "parseUnsigned s =
     (if take 8 s = ''Infinity'' then PosInf
      else
        (case takeDigits s of (ip, r) \<Rightarrow>
          (case r of
             [] \<Rightarrow> if ip = [] then NaN else Fin (real (digitsVal ip))
           | c # r1 \<Rightarrow>
               if c = CHR ''.'' then
                 (case takeDigits r1 of (fp, r2) \<Rightarrow>
                    if ip = [] \<and> fp = [] then NaN
                    else Fin ((real (digitsVal ip) + real (digitsVal fp) / 10 ^ length fp)
                              * pow10 (exponentPart r2)))
               else if ip = [] then NaN
               else Fin (real (digitsVal ip) * pow10 (exponentPart r)))))"

definition parseFloat_string :: "string \<Rightarrow> jsnum" where
  "parseFloat_string s =
     (case dropWhile isWhite s of
        [] \<Rightarrow> NaN
      | c # r \<Rightarrow>
          if c = CHR ''-'' then js_neg (parseUnsigned r)
          else if c = CHR ''+'' then parseUnsigned r
          else parseUnsigned (c # r))"

text \<open>
  \<open>parseFloat(v)\<close> reads the string of \<open>v\<close>. A number prints as itself; \<open>null\<close>,
  \<open>undefined\<close>, a boolean and an object print as words that are no number; an array
  prints its elements separated by commas, so only its first element is read.
\<close>

fun parseFloat :: "jsval \<Rightarrow> jsnum" where
  "parseFloat (JNum n) = n"
| "parseFloat (JStr s) = parseFloat_string s"
| "parseFloat (JArr i (v # vs)) = parseFloat v"
| "parseFloat _ = NaN"

section \<open>The state of the server\<close>

type_synonym ws = nat

datatype ready_state = CONNECTING | OPEN | CLOSING | CLOSED

datatype dev_status = Connected | Disconnected

record enhanced =
  data :: fields
  server_timestamp :: int
  magnitude :: jsnum
  intensity :: jsnum
  jma_intensity :: jsnum
  pga :: jsnum
  earthquake_type :: quake_type
  alert_level :: alert_grade
  energy :: jsnum
  impact_radius :: radius_bands
  is_earthquake :: bool
  e_location :: jsval

record device =
  location :: jsval
  status :: dev_status
  d_connectedAt :: int
  lastSeen :: int
  history :: "enhanced list"
  battery :: jsval
  signal_strength :: jsval
  free_heap :: jsval

record client =
  c_id :: string
  c_ip :: string
  c_connectedAt :: int
  lastHeartbeat :: int
  deviceId :: jsval
  clientType :: jsval

text \<open>
  The alert message. Its level is the literal \<open>'warning'\<close>; its text is a fixed sentence
  followed by the magnitude of the record.
\<close>

record alert =
  a_alert_level :: string
  a_device_id :: jsval
  a_magnitude :: jsnum
  a_timestamp :: int
  a_location :: jsval
  a_message_magnitude :: jsnum

datatype error_text = Invalid_JSON | Empty_device_id

datatype out_msg =
    Connection_established int string
  | Error_msg error_text
  | Client_registered jsval int
  | Server_health nat nat int
  | Devices_data "(jsval \<times> enhanced option \<times> device) list"
  | Recent_data "enhanced list"
  | Data_received int jsnum bool
  | Sensor_data enhanced
  | Device_registered jsval int
  | Device_status jsval jsval dev_status int
  | Heartbeat_ack int
  | Device_status_update jsval jsval jsval jsval int
  | Earthquake_alert alert

text \<open>
  What a handler does to the outside, in the order it does it: a send on one connection,
  one call of \<open>broadcastToDashboards\<close> or of the loop over all connections (with the
  connections it sent to), a ping, a forced termination, a write of the cache file (with
  the array written, and whether the write went through), the backup and the unlink of
  \<open>/api/clear-cache\<close>. Log lines are left out.
\<close>

datatype effect =
    Send ws out_msg
  | To_dashboards out_msg "ws list"
  | To_all out_msg "ws list"
  | Ping ws
  | Terminate ws
  | Write_cache "enhanced list" bool
  | Write_backup "enhanced list"
  | Unlink_cache

record hub =
  clients :: "(ws \<times> client) list"
  sockets :: "(ws \<times> ready_state) list"
  deviceData :: "(jsval \<times> device) list"
  recentData :: "enhanced list"
  dataCache :: "enhanced list"
  cache_file :: "enhanced list option"
  packetCount :: nat
  lastPacketReset :: int
  currentPps :: nat
  trace :: "effect list"

definition HEARTBEAT_INTERVAL :: int where
  "HEARTBEAT_INTERVAL = 30000"

definition MAX_CACHE_SIZE :: nat where
  "MAX_CACHE_SIZE = 1000"

definition MAX_HISTORY_SIZE :: nat where
  "MAX_HISTORY_SIZE = 100"

definition MAX_RECENT_DATA_SIZE :: nat where
  "MAX_RECENT_DATA_SIZE = 100"

section \<open>The handlers of the WebSocket server\<close>

text \<open>
  Every handler takes the time \<open>now\<close> that \<open>Date.now()\<close> and \<open>new Date()\<close> return
  while it runs, and returns the state it leaves. A \<open>Map\<close> is an association list in
  insertion order: \<open>map_of\<close> is \<open>get\<close>, \<open>AList.update\<close> is \<open>set\<close> (and the mutation
  of the object stored under a key), \<open>AList.delete\<close> is \<open>delete\<close>.
\<close>

datatype js_error = TypeError

definition Map_has :: "('k \<times> 'v) list \<Rightarrow> 'k \<Rightarrow> bool" where
  "Map_has m k = (map_of m k \<noteq> None)"

definition emit :: "effect \<Rightarrow> hub \<Rightarrow> hub" where
  "emit e s = s\<lparr>trace := trace s @ [e]\<rparr>"

definition readyState :: "hub \<Rightarrow> ws \<Rightarrow> ready_state option" where
  "readyState s c = map_of (sockets s) c"

definition is_dashboard :: "hub \<Rightarrow> ws \<Rightarrow> bool" where
  "is_dashboard s c =
     (case map_of (clients s) c of
        None \<Rightarrow> False
      | Some clientInfo \<Rightarrow>
          deviceId clientInfo = JStr ''DASHBOARD'' \<or> clientType clientInfo = JStr ''monitor'')"

definition dashboard_recipients :: "hub \<Rightarrow> ws list" where
  "dashboard_recipients s =
     map fst (filter (\<lambda>(c, rs). rs = OPEN \<and> is_dashboard s c) (sockets s))"

definition broadcastToDashboards :: "out_msg \<Rightarrow> hub \<Rightarrow> hub" where
  "broadcastToDashboards message s = emit (To_dashboards message (dashboard_recipients s)) s"

definition open_sockets :: "hub \<Rightarrow> ws list" where
  "open_sockets s = map fst (filter (\<lambda>(c, rs). rs = OPEN) (sockets s))"

text \<open>
  The source's literal for a missing location: four Chinese characters (unknown place),
  as their UTF-8 bytes.
\<close>

definition unknown_location :: string where
  "unknown_location =
     [CHR 0xE6, CHR 0x9C, CHR 0xAA, CHR 0xE7, CHR 0x9F, CHR 0xA5,
      CHR 0xE4, CHR 0xBD, CHR 0x8D, CHR 0xE7, CHR 0xBD, CHR 0xAE]"

definition alertMessage :: "enhanced \<Rightarrow> alert" where
  "alertMessage d =
     \<lparr>a_alert_level = ''warning'',
      a_device_id = get_field (data d) ''device_id'',
      a_magnitude = magnitude d,
      a_timestamp = server_timestamp d,
      a_location = (if falsy (e_location d) then JStr unknown_location else e_location d),
      a_message_magnitude = magnitude d\<rparr>"

definition handleEarthquakeAlert :: "enhanced \<Rightarrow> hub \<Rightarrow> hub" where
  "handleEarthquakeAlert d s =
     emit (To_all (Earthquake_alert (alertMessage d)) (open_sockets s)) s"

text \<open>\<open>xs.push(x); if (xs.length > cap) xs.shift()\<close>.\<close>

definition push_shift :: "nat \<Rightarrow> 'a list \<Rightarrow> 'a \<Rightarrow> 'a list" where
  "push_shift cap xs x = (let ys = xs @ [x] in if cap < length ys then tl ys else ys)"

definition parsedData :: "fields \<Rightarrow> (string \<times> jsnum) list" where
  "parsedData d =
     [(''ax'', parseFloat (get_field d ''ax'')),
      (''ay'', parseFloat (get_field d ''ay'')),
      (''az'', parseFloat (get_field d ''az'')),
      (''gx'', parseFloat (get_field d ''gx'')),
      (''gy'', parseFloat (get_field d ''gy'')),
      (''gz'', parseFloat (get_field d ''gz''))]"

text \<open>The record \<open>enhancedData\<close> that \<open>handleSensorData\<close> builds for a validated message.\<close>

definition enhancedData :: "int \<Rightarrow> fields \<Rightarrow> device \<Rightarrow> enhanced" where
  "enhancedData now d deviceInfo =
     (let ax = parseFloat (get_field d ''ax'');
          ay = parseFloat (get_field d ''ay'');
          az = parseFloat (get_field d ''az'');
          magnitude = calculateMagnitude ax ay az;
          intensity = calculateIntensity ax ay az (Fin 10);
          jmaResult = calculateJmaSeismicIntensity ax ay az (Fin 1.0);
          jmaIntensity = jma_intensity_of jmaResult;
          pga = jma_pga_raw jmaResult;
          earthquakeType = classifyEarthquake magnitude;
          alertLevel = assessAlertLevel magnitude intensity;
          energy = calculateEnergy magnitude;
          impactRadius = calculateImpactRadius magnitude;
          isEarthquake = detectEarthquake magnitude (Fin 3.0)
      in \<lparr>data = d,
          server_timestamp = now,
          magnitude = toFixed_parsed 4 magnitude,
          intensity = toFixed_parsed 4 intensity,
          jma_intensity = toFixed_parsed 4 jmaIntensity,
          pga = toFixed_parsed 6 pga,
          earthquake_type = earthquakeType,
          alert_level = alertLevel,
          energy = energy,
          impact_radius = impactRadius,
          is_earthquake = isEarthquake,
          e_location = (if falsy (location deviceInfo) then JNull else location deviceInfo)\<rparr>)"

text \<open>The magnitude before rounding, which the acknowledgement carries.\<close>

definition sample_magnitude :: "fields \<Rightarrow> jsnum" where
  "sample_magnitude d =
     calculateMagnitude (parseFloat (get_field d ''ax'')) (parseFloat (get_field d ''ay''))
       (parseFloat (get_field d ''az''))"

text \<open>
  \<open>handleSensorData\<close> after its validation, for a message whose device \<open>deviceInfo\<close> was
  found under \<open>device_id\<close>. \<open>fs_ok\<close> says whether \<open>writeFileSync\<close> goes through; \<open>ws\<close>
  is \<open>None\<close> when the call comes from \<open>/api/test/earthquake\<close>.
\<close>

definition acceptSample ::
  "int \<Rightarrow> bool \<Rightarrow> ws option \<Rightarrow> fields \<Rightarrow> jsval \<Rightarrow> device \<Rightarrow> hub \<Rightarrow> hub" where
  "acceptSample now fs_ok ws d device_id deviceInfo s =
     (let e = enhancedData now d deviceInfo;
          isEarthquake = is_earthquake e;
          deviceInfo' = deviceInfo\<lparr>lastSeen := now,
                          history := push_shift MAX_HISTORY_SIZE (history deviceInfo) e\<rparr>;
          cache = push_shift MAX_CACHE_SIZE (dataCache s) e;
          s1 = s\<lparr>deviceData := AList.update device_id deviceInfo' (deviceData s),
                 recentData := push_shift MAX_RECENT_DATA_SIZE (recentData s) e,
                 dataCache := cache\<rparr>;
          s2 = (if length cache mod 100 = 0 \<or> isEarthquake
                then emit (Write_cache cache fs_ok)
                       (if fs_ok then s1\<lparr>cache_file := Some cache\<rparr> else s1)
                else s1);
          count = packetCount s2 + 1;
          s3 = (if 1000 \<le> now - lastPacketReset s2
                then s2\<lparr>packetCount := 0, lastPacketReset := now, currentPps := count\<rparr>
                else s2\<lparr>packetCount := count\<rparr>);
          s4 = (case ws of
                  None \<Rightarrow> s3
                | Some c \<Rightarrow> emit (Send c (Data_received now (sample_magnitude d) isEarthquake)) s3);
          s5 = broadcastToDashboards (Sensor_data e) s4
      in if isEarthquake then handleEarthquakeAlert e s5 else s5)"

text \<open>
  The warning of the first check reads \<open>client.id\<close>, which throws when the connection is
  no longer in \<open>clients\<close>.
\<close>

definition handleSensorData ::
  "int \<Rightarrow> bool \<Rightarrow> ws option \<Rightarrow> fields \<Rightarrow> client option \<Rightarrow> hub \<Rightarrow> js_error + hub" where
  "handleSensorData now fs_ok ws d client s =
     (let device_id = get_field d ''device_id'';
          timestamp = get_field d ''timestamp''
      in if falsy device_id \<or> falsy timestamp then
           (case client of None \<Rightarrow> Inl TypeError | Some _ \<Rightarrow> Inr s)
         else
           (case map_of (deviceData s) device_id of
              None \<Rightarrow> Inr s
            | Some deviceInfo \<Rightarrow>
                if list_ex (\<lambda>(key, v). isNaN v) (parsedData d) then Inr s
                else Inr (acceptSample now fs_ok ws d device_id deviceInfo s)))"

definition handleDeviceRegister ::
  "int \<Rightarrow> ws \<Rightarrow> fields \<Rightarrow> client option \<Rightarrow> hub \<Rightarrow> js_error + hub" where
  "handleDeviceRegister now c d client s =
     (let device_id = get_field d ''device_id'';
          loc = get_field d ''location''
      in if falsy device_id then Inr (emit (Send c (Error_msg Empty_device_id)) s)
         else
           (case client of
              None \<Rightarrow> Inl TypeError
            | Some cl \<Rightarrow>
                (let s1 = s\<lparr>clients := AList.update c (cl\<lparr>deviceId := device_id\<rparr>) (clients s)\<rparr>;
                     s2 = (case map_of (deviceData s1) device_id of
                             None \<Rightarrow>
                               s1\<lparr>deviceData := AList.update device_id
                                    \<lparr>location = loc, status = Connected, d_connectedAt = now,
                                     lastSeen = now, history = [], battery = JUndefined,
                                     signal_strength = JUndefined, free_heap = JUndefined\<rparr>
                                    (deviceData s1)\<rparr>
                           | Some deviceInfo \<Rightarrow>
                               s1\<lparr>deviceData := AList.update device_id
                                    (deviceInfo\<lparr>status := Connected, lastSeen := now\<rparr>)
                                    (deviceData s1)\<rparr>);
                     s3 = emit (Send c (Device_registered device_id now)) s2
                 in Inr (broadcastToDashboards (Device_status device_id loc Connected now) s3))))"

definition handleHeartbeat :: "int \<Rightarrow> ws \<Rightarrow> fields \<Rightarrow> client option \<Rightarrow> hub \<Rightarrow> hub" where
  "handleHeartbeat now c d client s =
     (let device_id = get_field d ''device_id''
      in case client of
           None \<Rightarrow> s
         | Some cl \<Rightarrow>
             (let s1 = s\<lparr>clients := AList.update c (cl\<lparr>lastHeartbeat := now\<rparr>) (clients s)\<rparr>;
                  s2 = (if falsy device_id then s1
                        else
                          (case map_of (deviceData s1) device_id of
                             None \<Rightarrow> s1
                           | Some deviceInfo \<Rightarrow>
                               s1\<lparr>deviceData := AList.update device_id
                                    (deviceInfo\<lparr>status := Connected, lastSeen := now\<rparr>)
                                    (deviceData s1)\<rparr>))
              in emit (Send c (Heartbeat_ack now)) s2))"

definition handleStatusUpdate :: "int \<Rightarrow> fields \<Rightarrow> hub \<Rightarrow> hub" where
  "handleStatusUpdate now d s =
     (let device_id = get_field d ''device_id'';
          bat = get_field d ''battery'';
          sig = get_field d ''signal_strength'';
          heap = get_field d ''free_heap''
      in if falsy device_id then s
         else
           (case map_of (deviceData s) device_id of
              None \<Rightarrow> s
            | Some deviceInfo \<Rightarrow>
                broadcastToDashboards (Device_status_update device_id bat sig heap now)
                  (s\<lparr>deviceData := AList.update device_id
                       (deviceInfo\<lparr>battery := bat, signal_strength := sig, free_heap := heap,
                                   status := Connected, lastSeen := now\<rparr>)
                       (deviceData s)\<rparr>)))"

text \<open>The health summary, without the uptime of the process.\<close>

definition getHealthStatus :: "int \<Rightarrow> hub \<Rightarrow> out_msg" where
  "getHealthStatus now s = Server_health (length (clients s)) (length (deviceData s)) now"

definition devices_listing :: "hub \<Rightarrow> (jsval \<times> enhanced option \<times> device) list" where
  "devices_listing s =
     map (\<lambda>(id, info).
            (id, (if 0 < length (history info) then Some (last (history info)) else None), info))
         (deviceData s)"

definition handleClientRegister ::
  "int \<Rightarrow> ws \<Rightarrow> fields \<Rightarrow> client option \<Rightarrow> hub \<Rightarrow> js_error + hub" where
  "handleClientRegister now c d client s =
     (let client_type = (if get_field d ''client_type'' = JUndefined then JStr ''generic''
                         else get_field d ''client_type'')
      in case client of
           None \<Rightarrow> Inl TypeError
         | Some cl \<Rightarrow>
             (let s1 = s\<lparr>clients := AList.update c (cl\<lparr>clientType := client_type\<rparr>) (clients s)\<rparr>;
                  s2 = emit (Send c (Client_registered client_type now)) s1
              in if client_type = JStr ''monitor'' then
                   Inr (emit (Send c (Recent_data (recentData s2)))
                         (emit (Send c (Devices_data (devices_listing s2)))
                           (emit (Send c (getHealthStatus now s2)) s2)))
                 else Inr s2))"

text \<open>
  \<open>data.type\<close>: reading a property of \<open>null\<close> throws; a number, a string, a boolean and
  an array have no such property.
\<close>

definition message_type :: "jsval \<Rightarrow> js_error + jsval" where
  "message_type d =
     (case d of
        JNull \<Rightarrow> Inl TypeError
      | JUndefined \<Rightarrow> Inl TypeError
      | JObj i fs \<Rightarrow> Inr (get_field fs ''type'')
      | _ \<Rightarrow> Inr JUndefined)"

definition fields_of :: "jsval \<Rightarrow> fields" where
  "fields_of d = (case d of JObj i fs \<Rightarrow> fs | _ \<Rightarrow> [])"

definition handleMessage :: "int \<Rightarrow> bool \<Rightarrow> ws \<Rightarrow> jsval \<Rightarrow> hub \<Rightarrow> js_error + hub" where
  "handleMessage now fs_ok c d s =
     (let client = map_of (clients s) c
      in case message_type d of
           Inl e \<Rightarrow> Inl e
         | Inr t \<Rightarrow>
             if falsy t then (case client of None \<Rightarrow> Inl TypeError | Some _ \<Rightarrow> Inr s)
             else if t = JStr ''sensor_data'' then
               handleSensorData now fs_ok (Some c) (fields_of d) client s
             else if t = JStr ''device_register'' then
               handleDeviceRegister now c (fields_of d) client s
             else if t = JStr ''heartbeat'' then
               Inr (handleHeartbeat now c (fields_of d) client s)
             else if t = JStr ''status_update'' then
               Inr (handleStatusUpdate now (fields_of d) s)
             else if t = JStr ''client_register'' then
               handleClientRegister now c (fields_of d) client s
             else (case client of None \<Rightarrow> Inl TypeError | Some _ \<Rightarrow> Inr s))"

subsection \<open>Connection events and timers\<close>

definition on_connection :: "int \<Rightarrow> ws \<Rightarrow> string \<Rightarrow> string \<Rightarrow> hub \<Rightarrow> hub" where
  "on_connection now c clientId clientIp s =
     emit (Send c (Connection_established now clientId))
       (s\<lparr>sockets := AList.update c OPEN (sockets s),
          clients := AList.update c
            \<lparr>c_id = clientId, c_ip = clientIp, c_connectedAt = now, lastHeartbeat = now,
             deviceId = JNull, clientType = JStr ''unknown''\<rparr> (clients s)\<rparr>)"

definition on_pong :: "int \<Rightarrow> ws \<Rightarrow> hub \<Rightarrow> hub" where
  "on_pong now c s =
     (case map_of (clients s) c of
        None \<Rightarrow> s
      | Some client \<Rightarrow> s\<lparr>clients := AList.update c (client\<lparr>lastHeartbeat := now\<rparr>) (clients s)\<rparr>)"

text \<open>The timer that every connection sets up: a ping, or the removal of a closed socket.\<close>

definition heartbeatInterval :: "ws \<Rightarrow> hub \<Rightarrow> hub" where
  "heartbeatInterval c s =
     (if readyState s c = Some OPEN then emit (Ping c) s
      else (case map_of (clients s) c of
              None \<Rightarrow> s
            | Some client \<Rightarrow> s\<lparr>clients := AList.delete c (clients s)\<rparr>))"

text \<open>
  The \<open>message\<close> listener: \<open>parsed\<close> is \<open>None\<close> when \<open>JSON.parse\<close> throws. No handler
  changes the state before it throws, so the state at the \<open>catch\<close> is the state before.
\<close>

definition on_message :: "int \<Rightarrow> bool \<Rightarrow> ws \<Rightarrow> jsval option \<Rightarrow> hub \<Rightarrow> hub" where
  "on_message now fs_ok c parsed s =
     (case parsed of
        None \<Rightarrow> emit (Send c (Error_msg Invalid_JSON)) s
      | Some d \<Rightarrow>
          (case handleMessage now fs_ok c d s of
             Inl e \<Rightarrow> emit (Send c (Error_msg Invalid_JSON)) s
           | Inr s' \<Rightarrow> s'))"

text \<open>
  The \<open>close\<close> listener. The server of the \<open>ws\<close> library has taken the socket out of
  \<open>wss.clients\<close> before the listener of this program runs.
\<close>

definition on_close :: "int \<Rightarrow> ws \<Rightarrow> hub \<Rightarrow> hub" where
  "on_close now c s =
     (let s0 = s\<lparr>sockets := AList.delete c (sockets s)\<rparr>
      in case map_of (clients s0) c of
           None \<Rightarrow> s0
         | Some client \<Rightarrow>
             (let s1 = (if falsy (deviceId client) then s0
                        else
                          (case map_of (deviceData s0) (deviceId client) of
                             None \<Rightarrow> s0
                           | Some deviceInfo \<Rightarrow>
                               s0\<lparr>deviceData := AList.update (deviceId client)
                                    (deviceInfo\<lparr>status := Disconnected, lastSeen := now\<rparr>)
                                    (deviceData s0)\<rparr>));
                  s2 = s1\<lparr>clients := AList.delete c (clients s1)\<rparr>
              in broadcastToDashboards
                   (Device_status (deviceId client) JUndefined Disconnected now) s2))"

text \<open>
  \<open>client.terminate()\<close> of the \<open>ws\<close> library: a socket that is not closed yet is
  destroyed and its state becomes \<open>CLOSING\<close>; the \<open>close\<close> event comes later.
\<close>

definition terminate :: "ws \<Rightarrow> hub \<Rightarrow> hub" where
  "terminate c s =
     emit (Terminate c)
       (case map_of (sockets s) c of
          None \<Rightarrow> s
        | Some rs \<Rightarrow> if rs = CLOSED then s else s\<lparr>sockets := AList.update c CLOSING (sockets s)\<rparr>)"

text \<open>The body of the periodic heartbeat check, for one socket of \<open>wss.clients\<close>.\<close>

definition check_client :: "int \<Rightarrow> hub \<Rightarrow> ws \<Rightarrow> hub" where
  "check_client now s c =
     (case map_of (clients s) c of
        None \<Rightarrow> s
      | Some clientInfo \<Rightarrow>
          if HEARTBEAT_INTERVAL * 2 < now - lastHeartbeat clientInfo then
            (let s1 = terminate c s;
                 s2 = s1\<lparr>clients := AList.delete c (clients s1)\<rparr>
             in if falsy (deviceId clientInfo) then s2
                else
                  (case map_of (deviceData s2) (deviceId clientInfo) of
                     None \<Rightarrow> s2
                   | Some deviceInfo \<Rightarrow>
                       broadcastToDashboards
                         (Device_status (deviceId clientInfo) JUndefined Disconnected now)
                         (s2\<lparr>deviceData := AList.update (deviceId clientInfo)
                               (deviceInfo\<lparr>status := Disconnected, lastSeen := now\<rparr>)
                               (deviceData s2)\<rparr>)))
          else s)"

definition heartbeat_check :: "int \<Rightarrow> hub \<Rightarrow> hub" where
  "heartbeat_check now s = foldl (check_client now) s (map fst (sockets s))"

subsection \<open>The HTTP endpoints that change the state\<close>

text \<open>
  \<open>POST /api/test/earthquake\<close>: \<open>iso_text\<close> is the text of the current time, \<open>m\<close> the number
  that the \<open>magnitude\<close> of the body stands for (4.5 when it is absent), \<open>device_id\<close> the
  \<open>device_id\<close> of the body.
\<close>

definition test_api_client :: client where
  "test_api_client =
     \<lparr>c_id = ''test_api'', c_ip = [], c_connectedAt = 0, lastHeartbeat = 0,
      deviceId = JUndefined, clientType = JUndefined\<rparr>"

definition api_test_earthquake :: "int \<Rightarrow> bool \<Rightarrow> string \<Rightarrow> jsnum \<Rightarrow> jsval \<Rightarrow> hub \<Rightarrow> hub" where
  "api_test_earthquake now fs_ok iso_text m device_id s =
     (let testData =
            [(''type'', JStr ''sensor_data''),
             (''device_id'', if device_id = JUndefined then JStr ''test_device'' else device_id),
             (''timestamp'', JStr iso_text),
             (''ax'', JNum (js_mul m (Fin 0.1))),
             (''ay'', JNum (js_mul m (Fin 0.2))),
             (''az'', JNum (js_mul m (Fin 0.3))),
             (''gx'', JNum (Fin 0)),
             (''gy'', JNum (Fin 0)),
             (''gz'', JNum (Fin 0))]
      in case handleSensorData now fs_ok None testData (Some test_api_client) s of
           Inl e \<Rightarrow> s
         | Inr s' \<Rightarrow> s')"

text \<open>
  \<open>POST /api/clear-cache\<close>: when the backup cannot be written nothing changes.
\<close>

definition api_clear_cache :: "bool \<Rightarrow> hub \<Rightarrow> hub" where
  "api_clear_cache fs_ok s =
     (if fs_ok then
        (let s1 = emit (Write_backup (dataCache s)) s;
             s2 = s1\<lparr>dataCache := []\<rparr>
         in if cache_file s2 \<noteq> None then emit Unlink_cache (s2\<lparr>cache_file := None\<rparr>) else s2)
      else s)"

subsection \<open>Start and runs\<close>

text \<open>
  The state after the module is loaded at time \<open>now\<close>: \<open>file\<close> is the array the cache
  file holds, when there is a file and it parses.
\<close>

definition startup :: "int \<Rightarrow> enhanced list option \<Rightarrow> hub" where
  "startup now file =
     \<lparr>clients = [], sockets = [], deviceData = [], recentData = [],
      dataCache = (case file of None \<Rightarrow> [] | Some xs \<Rightarrow> xs),
      cache_file = file, packetCount = 0, lastPacketReset = now, currentPps = 0,
      trace = []\<rparr>"

datatype event =
    Connection ws string string
  | Message ws "jsval option" bool
  | Pong ws
  | Ping_timer ws
  | Close ws
  | Heartbeat_check
  | Api_test_earthquake bool string jsnum jsval
  | Api_clear_cache bool

fun step :: "hub \<Rightarrow> int \<times> event \<Rightarrow> hub" where
  "step s (now, Connection c clientId clientIp) = on_connection now c clientId clientIp s"
| "step s (now, Message c parsed fs_ok) = on_message now fs_ok c parsed s"
| "step s (now, Pong c) = on_pong now c s"
| "step s (now, Ping_timer c) = heartbeatInterval c s"
| "step s (now, Close c) = on_close now c s"
| "step s (now, Heartbeat_check) = heartbeat_check now s"
| "step s (now, Api_test_earthquake fs_ok iso_text m device_id) =
     api_test_earthquake now fs_ok iso_text m device_id s"
| "step s (now, Api_clear_cache fs_ok) = api_clear_cache fs_ok s"

definition run :: "hub \<Rightarrow> (int \<times> event) list \<Rightarrow> hub" where
  "run s evs = foldl step s evs"

section \<open>The command-line dashboard\<close>


section \<open>Vocabulary of the properties\<close>

text \<open>The Euclidean norm of the three acceleration axes.\<close>

definition norm3 :: "real \<Rightarrow> real \<Rightarrow> real \<Rightarrow> real" where
  "norm3 ax ay az = sqrt (ax\<^sup>2 + ay\<^sup>2 + az\<^sup>2)"





subsection \<open>A small server state and a sample message\<close>

text \<open>
  One device \<open>D1\<close> at location \<open>Lab\<close>, registered over connection 1; a second open
  connection 2 that never sent anything. The sample message comes from \<open>D1\<close> with the
  three acceleration axes given and the gyroscope axes zero.
\<close>

definition example_device :: device where
  "example_device =
     \<lparr>location = JStr ''Lab'', status = Connected, d_connectedAt = 0, lastSeen = 0,
      history = [], battery = JUndefined, signal_strength = JUndefined,
      free_heap = JUndefined\<rparr>"

definition example_client :: client where
  "example_client =
     \<lparr>c_id = ''client_1'', c_ip = ''10.0.0.1'', c_connectedAt = 0, lastHeartbeat = 0,
      deviceId = JStr ''D1'', clientType = JStr ''unknown''\<rparr>"

definition example_hub :: hub where
  "example_hub =
     \<lparr>clients = [(1, example_client)], sockets = [(1, OPEN), (2, OPEN)],
      deviceData = [(JStr ''D1'', example_device)], recentData = [], dataCache = [],
      cache_file = None, packetCount = 0, lastPacketReset = 0, currentPps = 0, trace = []\<rparr>"

definition sample_fields :: "jsval \<Rightarrow> jsval \<Rightarrow> jsval \<Rightarrow> fields" where
  "sample_fields ax ay az =
     [(''type'', JStr ''sensor_data''), (''device_id'', JStr ''D1''),
      (''timestamp'', JNum (Fin 1)), (''ax'', ax), (''ay'', ay), (''az'', az),
      (''gx'', JNum (Fin 0)), (''gy'', JNum (Fin 0)), (''gz'', JNum (Fin 0))]"

text \<open>A registration message and a status update for \<open>D1\<close>.\<close>

definition register_fields :: "jsval \<Rightarrow> fields" where
  "register_fields loc =
     [(''type'', JStr ''device_register''), (''device_id'', JStr ''D1''), (''location'', loc)]"

definition battery_fields :: fields where
  "battery_fields =
     [(''type'', JStr ''status_update''), (''device_id'', JStr ''D1''),
      (''battery'', JNum (Fin 80))]"

text \<open>A parsed frame whose \<open>type\<close> is \<open>heartbeat\<close>.\<close>

definition is_heartbeat_frame :: "jsval option \<Rightarrow> bool" where
  "is_heartbeat_frame parsed =
     (case parsed of None \<Rightarrow> False | Some m \<Rightarrow> message_type m = Inr (JStr ''heartbeat''))"

definition heartbeat_fields :: fields where
  "heartbeat_fields = [(''type'', JStr ''heartbeat''), (''device_id'', JStr ''D1'')]"


text \<open>The effects that are a write of the cache file.\<close>

fun is_cache_write :: "effect \<Rightarrow> bool" where
  "is_cache_write (Write_cache xs ok) = True"
| "is_cache_write _ = False"

text \<open>
  A run that starts from a cache file of 1000 records: one connection registers \<open>D1\<close>
  and sends two samples with all axes zero.
\<close>

definition zero_sample :: fields where
  "zero_sample = sample_fields (JNum (Fin 0)) (JNum (Fin 0)) (JNum (Fin 0))"

definition quiet_record :: enhanced where
  "quiet_record = enhancedData 0 zero_sample example_device"

definition full_cache_events :: "(int \<times> event) list" where
  "full_cache_events =
     [(1, Connection 1 ''client_1'' ''10.0.0.1''),
      (2, Message 1 (Some (JObj 0 (register_fields (JStr ''Lab'')))) True),
      (3, Message 1 (Some (JObj 1 zero_sample)) True),
      (4, Message 1 (Some (JObj 2 zero_sample)) True)]"

text \<open>The three bounds on the buffers of a state.\<close>

definition buffers_bounded :: "hub \<Rightarrow> bool" where
  "buffers_bounded s =
     (list_all (\<lambda>(id, info). length (history info) \<le> MAX_HISTORY_SIZE) (deviceData s)
      \<and> length (recentData s) \<le> MAX_RECENT_DATA_SIZE
      \<and> length (dataCache s) \<le> MAX_CACHE_SIZE)"




text \<open>
  The registry is in order: the sockets of \<open>wss.clients\<close> are distinct, every tracked
  connection is one of them, and the device a connection names, when it names one, is in
  the Device Directory.
\<close>

definition registry_ok :: "hub \<Rightarrow> bool" where
  "registry_ok s =
     (distinct (map fst (sockets s))
      \<and> (\<forall>c ci. map_of (clients s) c = Some ci \<longrightarrow>
             c \<in> fst ` set (sockets s)
             \<and> (falsy (deviceId ci) \<or> deviceId ci \<in> fst ` set (deviceData s))))"

section \<open>Verified properties\<close>

subsection \<open>The enrichment functions on finite axes\<close>

lemma Math_max_Fin: "Math_max (Fin a) (Fin b) = Fin (max a b)"
  by (simp add: Math_max_def max_def)

lemma Math_min_Fin: "Math_min (Fin a) (Fin b) = Fin (min a b)"
  by (simp add: Math_min_def min_def)

lemma norm3_nonneg: "0 \<le> norm3 ax ay az"
  by (simp add: norm3_def)

lemma sqrt_sum_Fin:
  "Math_sqrt (js_add (js_add (Math_pow2 (Fin ax)) (Math_pow2 (Fin ay))) (Math_pow2 (Fin az)))
     = Fin (norm3 ax ay az)"
proof -
  have "\<not> ax\<^sup>2 + ay\<^sup>2 + az\<^sup>2 < 0"
    by (simp add: not_less add_nonneg_nonneg)
  then show ?thesis
    by (simp add: norm3_def)
qed

lemma log10_norm_Fin:
  "Math_log10 (js_add (Fin (norm3 ax ay az)) (Fin 1)) = Fin (log 10 (norm3 ax ay az + 1))"
  using norm3_nonneg [of ax ay az] by simp

lemma calculateMagnitude_Fin: "calculateMagnitude (Fin ax) (Fin ay) (Fin az) =
  Fin (max 0 (min (log 10 (norm3 ax ay az + 1) * 2) 10))"
  unfolding calculateMagnitude_def Let_def sqrt_sum_Fin log10_norm_Fin
  by (simp only: js_mul.simps Math_max_Fin Math_min_Fin)







subsection \<open>The magnitude and the intensity of an enriched record\<close>







lemma get_field_sample:
  "get_field (sample_fields ax ay az) ''device_id'' = JStr ''D1''"
  "get_field (sample_fields ax ay az) ''timestamp'' = JNum (Fin 1)"
  "get_field (sample_fields ax ay az) ''ax'' = ax"
  "get_field (sample_fields ax ay az) ''ay'' = ay"
  "get_field (sample_fields ax ay az) ''az'' = az"
  "get_field (sample_fields ax ay az) ''gx'' = JNum (Fin 0)"
  "get_field (sample_fields ax ay az) ''gy'' = JNum (Fin 0)"
  "get_field (sample_fields ax ay az) ''gz'' = JNum (Fin 0)"
  by (simp_all add: get_field_def sample_fields_def)


lemma handleSensorData_accepts:
  assumes "\<not> falsy (get_field d ''device_id'')" "\<not> falsy (get_field d ''timestamp'')"
    and "map_of (deviceData s) (get_field d ''device_id'') = Some deviceInfo"
    and "\<not> list_ex (\<lambda>(key, v). isNaN v) (parsedData d)"
  shows "handleSensorData now fs_ok ws d client s =
           Inr (acceptSample now fs_ok ws d (get_field d ''device_id'') deviceInfo s)"
  using assms by (simp add: handleSensorData_def Let_def)


lemma recentData_emit [simp]: "recentData (emit e s) = recentData s"
  by (simp add: emit_def)

lemma recentData_acceptSample:
  "recentData (acceptSample now fs_ok ws d device_id deviceInfo s) =
     push_shift MAX_RECENT_DATA_SIZE (recentData s) (enhancedData now d deviceInfo)"
  by (simp add: acceptSample_def Let_def broadcastToDashboards_def handleEarthquakeAlert_def
      split: option.split)





subsection \<open>Sensor data that fails validation\<close>







subsection \<open>What the effects leave alone\<close>

lemma emit_fields [simp]:
  "clients (emit e s) = clients s" "sockets (emit e s) = sockets s"
  "deviceData (emit e s) = deviceData s" "dataCache (emit e s) = dataCache s"
  "cache_file (emit e s) = cache_file s" "trace (emit e s) = trace s @ [e]"
  "packetCount (emit e s) = packetCount s" "lastPacketReset (emit e s) = lastPacketReset s"
  "currentPps (emit e s) = currentPps s"
  by (simp_all add: emit_def)

lemma broadcastToDashboards_fields [simp]:
  "clients (broadcastToDashboards m s) = clients s"
  "sockets (broadcastToDashboards m s) = sockets s"
  "deviceData (broadcastToDashboards m s) = deviceData s"
  "recentData (broadcastToDashboards m s) = recentData s"
  "dataCache (broadcastToDashboards m s) = dataCache s"
  "cache_file (broadcastToDashboards m s) = cache_file s"
  "trace (broadcastToDashboards m s) = trace s @ [To_dashboards m (dashboard_recipients s)]"
  by (simp_all add: broadcastToDashboards_def)

lemma handleEarthquakeAlert_fields [simp]:
  "clients (handleEarthquakeAlert e s) = clients s"
  "sockets (handleEarthquakeAlert e s) = sockets s"
  "deviceData (handleEarthquakeAlert e s) = deviceData s"
  "recentData (handleEarthquakeAlert e s) = recentData s"
  "dataCache (handleEarthquakeAlert e s) = dataCache s"
  "cache_file (handleEarthquakeAlert e s) = cache_file s"
  "trace (handleEarthquakeAlert e s)
     = trace s @ [To_all (Earthquake_alert (alertMessage e)) (open_sockets s)]"
  by (simp_all add: handleEarthquakeAlert_def)

lemma dashboard_recipients_cong:
  "clients s' = clients s \<Longrightarrow> sockets s' = sockets s
     \<Longrightarrow> dashboard_recipients s' = dashboard_recipients s"
  by (simp add: dashboard_recipients_def is_dashboard_def)

lemma dashboard_recipients_simps [simp]:
  "dashboard_recipients (emit e s) = dashboard_recipients s"
  "dashboard_recipients (broadcastToDashboards m s) = dashboard_recipients s"
  "dashboard_recipients (handleEarthquakeAlert r s) = dashboard_recipients s"
  "dashboard_recipients (s\<lparr>deviceData := dd\<rparr>) = dashboard_recipients s"
  "dashboard_recipients (s\<lparr>recentData := rd\<rparr>) = dashboard_recipients s"
  "dashboard_recipients (s\<lparr>dataCache := dc\<rparr>) = dashboard_recipients s"
  "dashboard_recipients (s\<lparr>cache_file := cf\<rparr>) = dashboard_recipients s"
  "dashboard_recipients (s\<lparr>packetCount := pc\<rparr>) = dashboard_recipients s"
  "dashboard_recipients (s\<lparr>lastPacketReset := lr\<rparr>) = dashboard_recipients s"
  "dashboard_recipients (s\<lparr>currentPps := pp\<rparr>) = dashboard_recipients s"
  by (simp_all add: dashboard_recipients_def is_dashboard_def)

lemma open_sockets_simps [simp]:
  "open_sockets (emit e s) = open_sockets s"
  "open_sockets (broadcastToDashboards m s) = open_sockets s"
  "open_sockets (s\<lparr>clients := cs\<rparr>) = open_sockets s"
  "open_sockets (s\<lparr>deviceData := dd\<rparr>) = open_sockets s"
  "open_sockets (s\<lparr>recentData := rd\<rparr>) = open_sockets s"
  "open_sockets (s\<lparr>dataCache := dc\<rparr>) = open_sockets s"
  "open_sockets (s\<lparr>cache_file := cf\<rparr>) = open_sockets s"
  "open_sockets (s\<lparr>packetCount := pc\<rparr>) = open_sockets s"
  "open_sockets (s\<lparr>lastPacketReset := lr\<rparr>) = open_sockets s"
  "open_sockets (s\<lparr>currentPps := pp\<rparr>) = open_sockets s"
  by (simp_all add: open_sockets_def)

lemma clients_acceptSample [simp]:
  "clients (acceptSample now fs_ok ws d device_id deviceInfo s) = clients s"
  by (simp add: acceptSample_def Let_def split: option.split)

lemma sockets_acceptSample [simp]:
  "sockets (acceptSample now fs_ok ws d device_id deviceInfo s) = sockets s"
  by (simp add: acceptSample_def Let_def split: option.split)

subsection \<open>Registration of a known device\<close>

text \<open>
  Claim C6, as amended. A device_register message for an already-known device id, sent
  over a tracked connection, keeps the history of the device and its stored location,
  sets its status to connected and its lastSeen to the current time; no other device
  changes. The location carried by the message only goes into the device_status
  broadcast.
\<close>

theorem reregistration_keeps_history_and_location:
  assumes "\<not> falsy (get_field d ''device_id'')"
    and "map_of (deviceData s) (get_field d ''device_id'') = Some deviceInfo"
  shows "\<exists>s'. handleDeviceRegister now c d (Some cl) s = Inr s'
     \<and> deviceData s' = AList.update (get_field d ''device_id'')
                         (deviceInfo\<lparr>status := Connected, lastSeen := now\<rparr>) (deviceData s)
     \<and> map_of (deviceData s') (get_field d ''device_id'')
         = Some (deviceInfo\<lparr>status := Connected, lastSeen := now\<rparr>)
     \<and> history (deviceInfo\<lparr>status := Connected, lastSeen := now\<rparr>) = history deviceInfo
     \<and> location (deviceInfo\<lparr>status := Connected, lastSeen := now\<rparr>) = location deviceInfo
     \<and> trace s' = trace s
          @ [Send c (Device_registered (get_field d ''device_id'') now),
             To_dashboards (Device_status (get_field d ''device_id'') (get_field d ''location'')
                              Connected now) (dashboard_recipients s')]"
  using assms by (simp add: handleDeviceRegister_def Let_def update_conv')

theorem reregistration_keeps_history_and_location_witness:
  "\<not> falsy (get_field (register_fields (JStr ''Roof'')) ''device_id'')
   \<and> map_of (deviceData example_hub) (get_field (register_fields (JStr ''Roof'')) ''device_id'')
       = Some example_device
   \<and> (\<exists>s'. handleDeviceRegister 9 1 (register_fields (JStr ''Roof'')) (Some example_client)
              example_hub = Inr s'
         \<and> map_of (deviceData s') (JStr ''D1'')
             = Some (example_device\<lparr>status := Connected, lastSeen := 9\<rparr>))"
proof -
  have f: "get_field (register_fields (JStr ''Roof'')) ''device_id'' = JStr ''D1''"
    by (simp add: get_field_def register_fields_def)
  have a: "\<not> falsy (get_field (register_fields (JStr ''Roof'')) ''device_id'')"
    by (simp add: f falsy_def)
  have b: "map_of (deviceData example_hub) (get_field (register_fields (JStr ''Roof'')) ''device_id'')
       = Some example_device"
    by (simp add: f example_hub_def)
  from reregistration_keeps_history_and_location [OF a b, of 9 1 example_client] a b
  show ?thesis unfolding f by blast
qed

text \<open>
  Claim C6 as stated fails in its last part: \<open>D1\<close> is registered at \<open>Lab\<close>; after a second
  registration that carries the location \<open>Roof\<close> the directory still says \<open>Lab\<close>.
\<close>

theorem reregistration_does_not_refresh_location:
  "(case handleDeviceRegister 9 1 (register_fields (JStr ''Roof'')) (Some example_client)
          example_hub of
      Inl e \<Rightarrow> []
    | Inr s' \<Rightarrow> map (\<lambda>(k, v). (k, location v, status v, lastSeen v)) (deviceData s'))
   = [(JStr ''D1'', JStr ''Lab'', Connected, 9)]"
  by (simp add: handleDeviceRegister_def Let_def get_field_def register_fields_def falsy_def
      example_hub_def example_device_def)


subsection \<open>Status updates\<close>



subsection \<open>The heartbeat time of a connection\<close>

lemma lastHeartbeat_update_other:
  "lastHeartbeat cl' = lastHeartbeat cl \<Longrightarrow> map_of al c = Some cl
     \<Longrightarrow> map_option lastHeartbeat (map_of (AList.update c cl' al) k)
         = map_option lastHeartbeat (map_of al k)"
  by (simp add: update_conv')

lemma handleSensorData_clients:
  "handleSensorData now fs_ok ws d client s = Inr s' \<Longrightarrow> clients s' = clients s"
  by (auto simp add: handleSensorData_def Let_def split: option.splits if_splits)

lemma handleDeviceRegister_heartbeats:
  assumes "handleDeviceRegister now c d (map_of (clients s) c) s = Inr s'"
  shows "map_option lastHeartbeat (map_of (clients s') k)
           = map_option lastHeartbeat (map_of (clients s) k)"
  using assms
  by (auto simp add: handleDeviceRegister_def Let_def update_conv'
      split: option.splits if_splits)

lemma handleClientRegister_heartbeats:
  assumes "handleClientRegister now c d (map_of (clients s) c) s = Inr s'"
  shows "map_option lastHeartbeat (map_of (clients s') k)
           = map_option lastHeartbeat (map_of (clients s) k)"
  using assms
  by (auto simp add: handleClientRegister_def Let_def update_conv'
      split: option.splits if_splits)

lemma handleStatusUpdate_clients: "clients (handleStatusUpdate now d s) = clients s"
  by (simp add: handleStatusUpdate_def Let_def split: option.splits)

lemma handleHeartbeat_lastHeartbeat:
  "map_of (clients s) c = Some cl
     \<Longrightarrow> map_of (clients (handleHeartbeat now c d (Some cl) s)) c
           = Some (cl\<lparr>lastHeartbeat := now\<rparr>)"
  by (simp add: handleHeartbeat_def Let_def update_conv' split: option.splits)

lemma handleMessage_other_heartbeats:
  assumes "handleMessage now fs_ok c m s = Inr s'"
    and "message_type m \<noteq> Inr (JStr ''heartbeat'')"
  shows "map_option lastHeartbeat (map_of (clients s') k)
           = map_option lastHeartbeat (map_of (clients s) k)"
proof -
  from assms obtain t where t: "message_type m = Inr t" "t \<noteq> JStr ''heartbeat''"
    by (cases "message_type m") (auto simp add: handleMessage_def)
  consider (none) "falsy t"
    | (sensor) "\<not> falsy t" "t = JStr ''sensor_data''"
    | (device) "\<not> falsy t" "t = JStr ''device_register''"
    | (status) "\<not> falsy t" "t = JStr ''status_update''"
    | (client) "\<not> falsy t" "t = JStr ''client_register''"
    | (other) "\<not> falsy t" "t \<noteq> JStr ''sensor_data''" "t \<noteq> JStr ''device_register''"
        "t \<noteq> JStr ''status_update''" "t \<noteq> JStr ''client_register''"
    by blast
  then show ?thesis
  proof cases
    case none
    with assms(1) t show ?thesis
      by (auto simp add: handleMessage_def split: option.splits)
  next
    case sensor
    with assms(1) t have "handleSensorData now fs_ok (Some c) (fields_of m) (map_of (clients s) c) s
        = Inr s'"
      by (simp add: handleMessage_def)
    then show ?thesis by (simp add: handleSensorData_clients)
  next
    case device
    with assms(1) t have "handleDeviceRegister now c (fields_of m) (map_of (clients s) c) s = Inr s'"
      by (simp add: handleMessage_def)
    then show ?thesis by (rule handleDeviceRegister_heartbeats)
  next
    case status
    with assms(1) t have "s' = handleStatusUpdate now (fields_of m) s"
      by (simp add: handleMessage_def)
    then show ?thesis by (simp add: handleStatusUpdate_clients)
  next
    case client
    with assms(1) t have "handleClientRegister now c (fields_of m) (map_of (clients s) c) s = Inr s'"
      by (simp add: handleMessage_def)
    then show ?thesis by (rule handleClientRegister_heartbeats)
  next
    case other
    with assms(1) t show ?thesis
      by (auto simp add: handleMessage_def split: option.splits)
  qed
qed

text \<open>
  Claim C8, as amended. The lastHeartbeat of a tracked connection is set to the current
  time by every inbound message of type heartbeat and by every pong. An inbound frame of
  any other kind (sensor_data, device_register, status_update, client_register, an
  unknown type, no type, or text that does not parse) leaves the lastHeartbeat of every
  connection as it was.
\<close>

theorem lastHeartbeat_updated_by_heartbeat_and_pong_only:
  "(map_of (clients s) c = Some cl \<and> is_heartbeat_frame parsed
      \<longrightarrow> map_of (clients (on_message now fs_ok c parsed s)) c
            = Some (cl\<lparr>lastHeartbeat := now\<rparr>))
   \<and> (map_of (clients s) c = Some cl
      \<longrightarrow> map_of (clients (on_pong now c s)) c = Some (cl\<lparr>lastHeartbeat := now\<rparr>))
   \<and> (\<not> is_heartbeat_frame parsed
      \<longrightarrow> map_option lastHeartbeat (map_of (clients (on_message now fs_ok c parsed s)) k)
            = map_option lastHeartbeat (map_of (clients s) k))"
proof (intro conjI impI)
  assume a: "map_of (clients s) c = Some cl \<and> is_heartbeat_frame parsed"
  then obtain m where m: "parsed = Some m" "message_type m = Inr (JStr ''heartbeat'')"
    by (cases parsed) (simp_all add: is_heartbeat_frame_def)
  with a have "handleMessage now fs_ok c m s
      = Inr (handleHeartbeat now c (fields_of m) (Some cl) s)"
    by (simp add: handleMessage_def falsy_def)
  with a m show "map_of (clients (on_message now fs_ok c parsed s)) c
            = Some (cl\<lparr>lastHeartbeat := now\<rparr>)"
    by (simp add: on_message_def handleHeartbeat_lastHeartbeat)
next
  assume "map_of (clients s) c = Some cl"
  then show "map_of (clients (on_pong now c s)) c = Some (cl\<lparr>lastHeartbeat := now\<rparr>)"
    by (simp add: on_pong_def update_conv')
next
  assume a: "\<not> is_heartbeat_frame parsed"
  show "map_option lastHeartbeat (map_of (clients (on_message now fs_ok c parsed s)) k)
            = map_option lastHeartbeat (map_of (clients s) k)"
  proof (cases parsed)
    case None
    then show ?thesis by (simp add: on_message_def)
  next
    case (Some m)
    show ?thesis
    proof (cases "handleMessage now fs_ok c m s")
      case (Inl e)
      with Some show ?thesis by (simp add: on_message_def)
    next
      case (Inr s')
      from a Some have "message_type m \<noteq> Inr (JStr ''heartbeat'')"
        by (simp add: is_heartbeat_frame_def)
      with Inr have "map_option lastHeartbeat (map_of (clients s') k)
            = map_option lastHeartbeat (map_of (clients s) k)"
        by (rule handleMessage_other_heartbeats)
      with Some Inr show ?thesis by (simp add: on_message_def)
    qed
  qed
qed

theorem lastHeartbeat_updated_by_heartbeat_and_pong_only_witness:
  "map_of (clients example_hub) 1 = Some example_client
   \<and> is_heartbeat_frame (Some (JObj 0 heartbeat_fields))
   \<and> \<not> is_heartbeat_frame (Some (JObj 0 battery_fields))
   \<and> map_of (clients (on_message 5 True 1 (Some (JObj 0 heartbeat_fields)) example_hub)) 1
       = Some (example_client\<lparr>lastHeartbeat := 5\<rparr>)
   \<and> map_of (clients (on_pong 5 1 example_hub)) 1 = Some (example_client\<lparr>lastHeartbeat := 5\<rparr>)
   \<and> map_option lastHeartbeat
        (map_of (clients (on_message 5 True 1 (Some (JObj 0 battery_fields)) example_hub)) 1)
       = Some 0"
proof -
  have a: "map_of (clients example_hub) 1 = Some example_client"
    by (simp add: example_hub_def)
  have b: "is_heartbeat_frame (Some (JObj 0 heartbeat_fields))"
    by (simp add: is_heartbeat_frame_def message_type_def get_field_def heartbeat_fields_def)
  have c: "\<not> is_heartbeat_frame (Some (JObj 0 battery_fields))"
    by (simp add: is_heartbeat_frame_def message_type_def get_field_def battery_fields_def)
  have d: "lastHeartbeat example_client = 0"
    by (simp add: example_client_def)
  from lastHeartbeat_updated_by_heartbeat_and_pong_only
      [where s = example_hub and c = 1 and cl = example_client
         and parsed = "Some (JObj 0 heartbeat_fields)" and now = 5 and fs_ok = True and k = 1]
    lastHeartbeat_updated_by_heartbeat_and_pong_only
      [where s = example_hub and c = 1 and cl = example_client
         and parsed = "Some (JObj 0 battery_fields)" and now = 5 and fs_ok = True and k = 1]
    a b c d
  show ?thesis by simp
qed

text \<open>
  Claim C8 as stated fails for every message that is no heartbeat: an accepted
  sensor_data message that connection 1 sends at time 5 leaves its lastHeartbeat at 0.
\<close>

theorem sensor_data_does_not_touch_lastHeartbeat:
  "handleSensorData 5 True (Some 1)
       (sample_fields (JNum (Fin 0)) (JNum (Fin 0)) (JNum (Fin 0))) (Some example_client)
       example_hub
     = Inr (acceptSample 5 True (Some 1)
         (sample_fields (JNum (Fin 0)) (JNum (Fin 0)) (JNum (Fin 0))) (JStr ''D1'')
         example_device example_hub)
   \<and> map (\<lambda>(c, cl). (c, lastHeartbeat cl))
        (clients (on_message 5 True 1
           (Some (JObj 0 (sample_fields (JNum (Fin 0)) (JNum (Fin 0)) (JNum (Fin 0)))))
           example_hub))
     = [(1, 0)]"
proof -
  let ?d = "sample_fields (JNum (Fin 0)) (JNum (Fin 0)) (JNum (Fin 0))"
  have a: "handleSensorData 5 True (Some 1) ?d (Some example_client) example_hub
     = Inr (acceptSample 5 True (Some 1) ?d (JStr ''D1'') example_device example_hub)"
    by (simp add: handleSensorData_def Let_def get_field_sample falsy_def parsedData_def
        example_hub_def)
  have t: "get_field ?d ''type'' = JStr ''sensor_data''"
    by (simp add: get_field_def sample_fields_def)
  have c: "map_of (clients example_hub) 1 = Some example_client"
    by (simp add: example_hub_def)
  have "on_message 5 True 1 (Some (JObj 0 ?d)) example_hub
     = acceptSample 5 True (Some 1) ?d (JStr ''D1'') example_device example_hub"
    using a t c by (simp add: on_message_def handleMessage_def message_type_def fields_of_def
        falsy_def)
  with a show ?thesis
    by (simp add: example_hub_def example_client_def)
qed

subsection \<open>The alert path\<close>

lemma dataCache_acceptSample:
  "dataCache (acceptSample now fs_ok ws d device_id deviceInfo s) =
     push_shift MAX_CACHE_SIZE (dataCache s) (enhancedData now d deviceInfo)"
  by (simp add: acceptSample_def Let_def split: option.split)

lemma is_earthquake_enhancedData:
  "is_earthquake (enhancedData now d deviceInfo) = js_ge (sample_magnitude d) (Fin 3)"
  by (simp add: enhancedData_def Let_def detectEarthquake_def sample_magnitude_def)

lemma trace_acceptSample:
  "trace (acceptSample now fs_ok ws d device_id deviceInfo s) =
     trace s
     @ (if length (push_shift MAX_CACHE_SIZE (dataCache s) (enhancedData now d deviceInfo))
             mod 100 = 0
           \<or> is_earthquake (enhancedData now d deviceInfo)
        then [Write_cache (push_shift MAX_CACHE_SIZE (dataCache s) (enhancedData now d deviceInfo))
                fs_ok]
        else [])
     @ (case ws of
          None \<Rightarrow> []
        | Some c \<Rightarrow> [Send c (Data_received now (sample_magnitude d)
                              (is_earthquake (enhancedData now d deviceInfo)))])
     @ [To_dashboards (Sensor_data (enhancedData now d deviceInfo)) (dashboard_recipients s)]
     @ (if is_earthquake (enhancedData now d deviceInfo)
        then [To_all (Earthquake_alert (alertMessage (enhancedData now d deviceInfo)))
                (open_sockets s)]
        else [])"
  by (simp add: acceptSample_def Let_def split: option.split)







subsection \<open>Writes of the cache file\<close>

lemma zero_sample_quiet: "\<not> is_earthquake (enhancedData now zero_sample deviceInfo)"
proof -
  have "sample_magnitude zero_sample = Fin 0"
    by (simp add: sample_magnitude_def zero_sample_def get_field_sample calculateMagnitude_Fin
        norm3_def)
  then show ?thesis
    by (simp add: is_earthquake_enhancedData js_ge_def js_le_def)
qed

lemma zero_sample_accepted:
  assumes "map_of (deviceData s) (JStr ''D1'') = Some deviceInfo"
    and "map_of (clients s) c = Some cl"
  shows "on_message now fs_ok c (Some (JObj i zero_sample)) s
           = acceptSample now fs_ok (Some c) zero_sample (JStr ''D1'') deviceInfo s"
proof -
  have "handleSensorData now fs_ok (Some c) zero_sample (Some cl) s
      = Inr (acceptSample now fs_ok (Some c) zero_sample (get_field zero_sample ''device_id'')
               deviceInfo s)"
    using assms(1)
    by (intro handleSensorData_accepts)
      (simp_all add: zero_sample_def get_field_sample falsy_def parsedData_def)
  moreover have "get_field zero_sample ''type'' = JStr ''sensor_data''"
    by (simp add: zero_sample_def get_field_def sample_fields_def)
  ultimately show ?thesis
    using assms(2)
    by (simp add: on_message_def handleMessage_def message_type_def fields_of_def falsy_def
        zero_sample_def get_field_sample)
qed

lemma full_cache_write:
  assumes "length (dataCache s) = 1000"
  shows "length (dataCache (acceptSample now fs_ok ws d device_id deviceInfo s)) = 1000
       \<and> filter is_cache_write (trace (acceptSample now fs_ok ws d device_id deviceInfo s))
           = filter is_cache_write (trace s)
             @ [Write_cache (dataCache (acceptSample now fs_ok ws d device_id deviceInfo s)) fs_ok]"
proof -
  have l: "length (push_shift MAX_CACHE_SIZE (dataCache s) (enhancedData now d deviceInfo)) = 1000"
    using assms by (simp add: push_shift_def MAX_CACHE_SIZE_def Let_def)
  show ?thesis
    using l by (cases ws) (simp_all add: trace_acceptSample dataCache_acceptSample)
qed


lemma deviceData_acceptSample:
  "deviceData (acceptSample now fs_ok ws d device_id deviceInfo s) =
     AList.update device_id
       (deviceInfo\<lparr>lastSeen := now,
          history := push_shift MAX_HISTORY_SIZE (history deviceInfo)
                       (enhancedData now d deviceInfo)\<rparr>)
       (deviceData s)"
  by (simp add: acceptSample_def Let_def split: option.split)

text \<open>
  Claim C5 fails on the code once the cache is full. The run starts from a cache file
  of 1000 records, registers \<open>D1\<close> and accepts two samples, neither of them an
  earthquake: the cache file is written after the first one and again after the second.
\<close>

theorem full_cache_is_written_on_every_sample:
  "map is_earthquake
      (recentData (run (startup 0 (Some (replicate 1000 quiet_record))) full_cache_events))
     = [False, False]
   \<and> length (dataCache (run (startup 0 (Some (replicate 1000 quiet_record))) full_cache_events))
     = 1000
   \<and> length (filter is_cache_write
        (trace (run (startup 0 (Some (replicate 1000 quiet_record))) full_cache_events)))
     = 2"
proof -
  define s2 where "s2 = on_message 2 True 1 (Some (JObj 0 (register_fields (JStr ''Lab''))))
      (on_connection 1 1 ''client_1'' ''10.0.0.1'' (startup 0 (Some (replicate 1000 quiet_record))))"
  have s2: "s2 = \<lparr>clients = [(1, \<lparr>c_id = ''client_1'', c_ip = ''10.0.0.1'', c_connectedAt = 1,
                      lastHeartbeat = 1, deviceId = JStr ''D1'', clientType = JStr ''unknown''\<rparr>)],
      sockets = [(1, OPEN)],
      deviceData = [(JStr ''D1'', \<lparr>location = JStr ''Lab'', status = Connected,
                      d_connectedAt = 2, lastSeen = 2, history = [], battery = JUndefined,
                      signal_strength = JUndefined, free_heap = JUndefined\<rparr>)],
      recentData = [], dataCache = replicate 1000 quiet_record,
      cache_file = Some (replicate 1000 quiet_record), packetCount = 0, lastPacketReset = 0,
      currentPps = 0,
      trace = [Send 1 (Connection_established 1 ''client_1''),
               Send 1 (Device_registered (JStr ''D1'') 2),
               To_dashboards (Device_status (JStr ''D1'') (JStr ''Lab'') Connected 2) []]\<rparr>"
    unfolding s2_def
    by (simp add: startup_def on_connection_def on_message_def handleMessage_def
        message_type_def fields_of_def register_fields_def get_field_def falsy_def
        handleDeviceRegister_def Let_def emit_def broadcastToDashboards_def
        dashboard_recipients_def is_dashboard_def)
  obtain cl dev where c2: "map_of (clients s2) 1 = Some cl"
    and d2: "map_of (deviceData s2) (JStr ''D1'') = Some dev"
    by (simp add: s2)
  define s3 where "s3 = acceptSample 3 True (Some 1) zero_sample (JStr ''D1'') dev s2"
  have m3: "on_message 3 True 1 (Some (JObj 1 zero_sample)) s2 = s3"
    unfolding s3_def using d2 c2 by (rule zero_sample_accepted)
  obtain dev3 where d3: "map_of (deviceData s3) (JStr ''D1'') = Some dev3"
    by (simp add: s3_def deviceData_acceptSample update_conv')
  have c3: "map_of (clients s3) 1 = Some cl"
    using c2 by (simp add: s3_def)
  define s4 where "s4 = acceptSample 4 True (Some 1) zero_sample (JStr ''D1'') dev3 s3"
  have m4: "on_message 4 True 1 (Some (JObj 2 zero_sample)) s3 = s4"
    unfolding s4_def using d3 c3 by (rule zero_sample_accepted)
  have r: "run (startup 0 (Some (replicate 1000 quiet_record))) full_cache_events = s4"
    unfolding run_def full_cache_events_def
    by (simp only: foldl.simps step.simps s2_def [symmetric] m3 m4)
  have l2: "length (dataCache s2) = 1000" "filter is_cache_write (trace s2) = []"
    "recentData s2 = []"
    by (simp_all add: s2)
  note w3 = full_cache_write [OF l2(1), of 3 True "Some 1" zero_sample "JStr ''D1''" dev,
      folded s3_def]
  note w4 = full_cache_write [OF w3 [THEN conjunct1], of 4 True "Some 1" zero_sample
      "JStr ''D1''" dev3, folded s4_def]
  have rd: "recentData s4 = [enhancedData 3 zero_sample dev, enhancedData 4 zero_sample dev3]"
    by (simp add: s4_def s3_def recentData_acceptSample l2(3) push_shift_def
        MAX_RECENT_DATA_SIZE_def)
  show ?thesis
    unfolding r using w3 w4 l2(2) by (simp add: rd zero_sample_quiet)
qed

subsection \<open>Bounded buffers\<close>





lemma buffers_bounded_cong:
  "deviceData s' = deviceData s \<Longrightarrow> recentData s' = recentData s
     \<Longrightarrow> dataCache s' = dataCache s \<Longrightarrow> buffers_bounded s' = buffers_bounded s"
  by (simp add: buffers_bounded_def)

lemma buffers_bounded_emit [simp]: "buffers_bounded (emit e s) = buffers_bounded s"
  by (simp add: buffers_bounded_def)

lemma buffers_bounded_broadcast [simp]:
  "buffers_bounded (broadcastToDashboards m s) = buffers_bounded s"
  by (simp add: buffers_bounded_def)

lemma buffers_bounded_alert [simp]:
  "buffers_bounded (handleEarthquakeAlert e s) = buffers_bounded s"
  by (simp add: buffers_bounded_def)

lemma buffers_bounded_clients [simp]:
  "buffers_bounded (s\<lparr>clients := cs\<rparr>) = buffers_bounded s"
  "buffers_bounded (s\<lparr>sockets := ss\<rparr>) = buffers_bounded s"
  by (simp_all add: buffers_bounded_def)











lemma buffers_bounded_terminate [simp]: "buffers_bounded (terminate c s) = buffers_bounded s"
  by (simp add: terminate_def buffers_bounded_def split: option.splits)

lemma terminate_fields [simp]:
  "deviceData (terminate c s) = deviceData s" "clients (terminate c s) = clients s"
  "recentData (terminate c s) = recentData s" "dataCache (terminate c s) = dataCache s"
  "trace (terminate c s) = trace s @ [Terminate c]"
  by (simp_all add: terminate_def split: option.splits)










subsection \<open>The heartbeat check\<close>





















lemma registry_ok_emit [simp]: "registry_ok (emit e s) = registry_ok s"
  by (simp add: registry_ok_def)

lemma registry_ok_broadcast [simp]: "registry_ok (broadcastToDashboards m s) = registry_ok s"
  by (simp add: registry_ok_def)
























end
